theory Spec2Isabelle
  imports Main "HOL-Library.Word" "HOL-Library.Sublist"
begin

section \<open>Data model\<close>

text \<open>
  The kops API types come from an external library. Only the fields the provider reads
  or writes are named; every other field of a spec is kept in one component of an
  arbitrary type, on which HOL equality stands for \<open>reflect.DeepEqual\<close>.
\<close>

record 'r ClusterSpec =
  ConfigBase :: string
  MasterPublicName :: string
  OtherClusterFields :: 'r

record 'r Cluster =
  Name :: string
  Spec :: "'r ClusterSpec"

text \<open>
  \<open>NodeLabels\<close> is a Go map: \<open>None\<close> is the nil map, which \<open>reflect.DeepEqual\<close>
  tells apart from an empty one.
\<close>

record 'g InstanceGroupSpec =
  NodeLabels :: "(string \<rightharpoonup> string) option"
  OtherInstanceGroupFields :: 'g

record 'g InstanceGroup =
  IGName :: string
  IGSpec :: "'g InstanceGroupSpec"

record 'g InstanceGroupList =
  Items :: "'g InstanceGroup list"

text \<open>\<open>time.Duration\<close> is an \<open>int64\<close> count of nanoseconds; its arithmetic wraps.\<close>

type_synonym Duration = "64 word"

definition Hour :: Duration where
  "Hour = 3600000000000"

record ('r, 'g) KopsParameters =
  ClusterSpec :: "'r ClusterSpec"
  InstanceGroupSpec :: "'g InstanceGroupSpec list"
  Domain :: string
  StateBucket :: string
  Region :: string
  KubernetesAPICertificateTTL :: Duration

text \<open>
  A condition of the managed resource's status, as crossplane-runtime keeps it (the
  transition time is left out: \<open>Equal\<close> ignores it).
\<close>

record Condition =
  Type :: string
  CondStatus :: string
  Reason :: string

definition Available :: Condition where
  "Available = \<lparr>Type = ''Ready'', CondStatus = ''True'', Reason = ''Available''\<rparr>"

definition Creating :: Condition where
  "Creating = \<lparr>Type = ''Ready'', CondStatus = ''False'', Reason = ''Creating''\<rparr>"

definition Deleting :: Condition where
  "Deleting = \<lparr>Type = ''Ready'', CondStatus = ''False'', Reason = ''Deleting''\<rparr>"

text \<open>
  \<open>ConditionedStatus.SetConditions\<close> of crossplane-runtime, for one condition: a
  condition of the same type is replaced where it stands, otherwise the new one is appended.
\<close>

definition SetConditions :: "Condition \<Rightarrow> Condition list \<Rightarrow> Condition list" where
  "SetConditions new cs =
     (if list_ex (\<lambda>existing. Type existing = Type new) cs
      then map (\<lambda>existing. if Type existing \<noteq> Type new then existing else new) cs
      else cs @ [new])"

text \<open>
  The managed resource: \<open>ExternalName\<close> is what \<open>meta.GetExternalName\<close> reads (the
  external-name annotation, empty when absent), \<open>Conditions\<close> is
  \<open>Status.Conditions\<close>.
\<close>

record ('r, 'g) Kops =
  ExternalName :: string
  ForProvider :: "('r, 'g) KopsParameters"
  Conditions :: "Condition list"

text \<open>A \<open>resource.Managed\<close> is a Kops resource or a resource of some other kind.\<close>

datatype ('r, 'g) Managed = KopsResource "('r, 'g) Kops" | OtherResource

text \<open>
  The result of a kops validation, with the fields the provider reads. The status of a
  node is a \<open>corev1.ConditionStatus\<close>, a string: \<open>True\<close>, \<open>False\<close> or \<open>Unknown\<close>.
\<close>

record ValidationError =
  Message :: string

record ValidationNode =
  Hostname :: string
  Status :: string

record ValidationCluster =
  Failures :: "ValidationError list"
  Nodes :: "ValidationNode list"

definition ConditionFalse :: string where
  "ConditionFalse = ''False''"

section \<open>Errors\<close>

text \<open>
  An error is created with a message (\<open>errors.New\<close>, \<open>fmt.Errorf\<close>) or wraps a cause
  with a tag (\<open>errors.Wrap\<close>); \<open>Error\<close> is its text.
\<close>

datatype error = New string | Wrap error string

fun Error :: "error \<Rightarrow> string" where
  "Error (New msg) = msg"
| "Error (Wrap cause msg) = msg @ '': '' @ Error cause"

text \<open>\<open>strings.Contains\<close>: the substring occurs at some position.\<close>

fun Contains :: "string \<Rightarrow> string \<Rightarrow> bool" where
  "Contains [] substr = (substr = [])"
| "Contains (c # s) substr = (prefix substr (c # s) \<or> Contains s substr)"

definition ErrNotFound :: "error \<Rightarrow> bool" where
  "ErrNotFound err = Contains (Error err) ''not found''"

section \<open>Validation result\<close>

definition EvaluateKopsValidationResult :: "ValidationCluster \<Rightarrow> bool \<times> string list" where
  "EvaluateKopsValidationResult validation =
     (let failures = Failures validation;
          (result, errorMessages) =
             (if length failures > 0
              then (False, foldl (\<lambda>msgs failure. msgs @ [Message failure]) [] failures)
              else (True, []));
          nodes = Nodes validation
      in foldl (\<lambda>(result, msgs) node.
                  if Status node = ConditionFalse
                  then (False, msgs @ [''node '' @ Hostname node @ '' condition is '' @ Status node])
                  else (result, msgs))
               (result, errorMessages) nodes)"

section \<open>State comparator\<close>

text \<open>
  \<open>ClusterResourceUpToDate\<close> takes two pointers and writes through the second. The
  store maps an address to the spec it holds; the pointers of the only caller are
  addresses of struct fields, so nil is not among them.
\<close>

type_synonym addr = nat
type_synonym 'r store = "addr \<Rightarrow> 'r ClusterSpec"

text \<open>
  The addresses \<open>&cr.Spec.ForProvider.ClusterSpec\<close> and \<open>&cluster.Spec\<close> that
  \<open>Observe\<close> hands to the comparator, and the store that holds a desired spec at the
  first and an observed spec at the second.
\<close>

definition desired_addr :: addr where
  "desired_addr = 0"

definition observed_addr :: addr where
  "observed_addr = 1"

definition two_objects :: "'r ClusterSpec \<Rightarrow> 'r ClusterSpec \<Rightarrow> 'r store" where
  "two_objects desired observed = (\<lambda>a. if a = desired_addr then desired else observed)"

definition ClusterResourceUpToDate :: "addr \<Rightarrow> addr \<Rightarrow> 'r store \<Rightarrow> bool \<times> 'r store" where
  "ClusterResourceUpToDate old new h =
     (let h1 = h(new := (h new)\<lparr>ConfigBase := ''''\<rparr>);
          h2 = h1(new := (h1 new)\<lparr>MasterPublicName := ''''\<rparr>)
      in (h2 old = h2 new, h2))"

text \<open>Indexing a Go map at an absent key, or indexing the nil map, gives the empty string.\<close>

definition instancegroup_label :: "'g InstanceGroupSpec \<Rightarrow> string" where
  "instancegroup_label spec =
     (case NodeLabels spec of
        None \<Rightarrow> ''''
      | Some labels \<Rightarrow>
          (case labels ''kops.k8s.io/instancegroup'' of None \<Rightarrow> '''' | Some v \<Rightarrow> v))"

text \<open>
  The label values that are present on a list of instance-group specs: a spec whose map
  is nil or has no entry at the key contributes none.
\<close>

definition present_labels :: "'g InstanceGroupSpec list \<Rightarrow> string list" where
  "present_labels specs =
     concat (map (\<lambda>spec. case NodeLabels spec of
                            None \<Rightarrow> []
                          | Some labels \<Rightarrow>
                              (case labels ''kops.k8s.io/instancegroup'' of
                                 None \<Rightarrow> [] | Some v \<Rightarrow> [v])) specs)"

text \<open>The inner loop: \<open>Some False\<close> when it returns from the function, \<open>None\<close> when it ends.\<close>

fun compare_with_items :: "'g InstanceGroupSpec \<Rightarrow> 'g InstanceGroup list \<Rightarrow> bool option" where
  "compare_with_items oldInstance [] = None"
| "compare_with_items oldInstance (newInstance # rest) =
     (if instancegroup_label oldInstance = instancegroup_label (IGSpec newInstance)
      then (if \<not> (oldInstance = IGSpec newInstance) then Some False
            else compare_with_items oldInstance rest)
      else compare_with_items oldInstance rest)"

fun compare_all :: "'g InstanceGroupSpec list \<Rightarrow> 'g InstanceGroup list \<Rightarrow> bool" where
  "compare_all [] items = True"
| "compare_all (oldInstance # rest) items =
     (case compare_with_items oldInstance items of
        Some r \<Rightarrow> r
      | None \<Rightarrow> compare_all rest items)"

definition InstanceGroupListResourceUpToDate ::
    "'g InstanceGroupSpec list \<Rightarrow> 'g InstanceGroupList \<Rightarrow> bool" where
  "InstanceGroupListResourceUpToDate old new = compare_all old (Items new)"

section \<open>External collaborators\<close>

text \<open>
  The kops client set, the key store, the certificate issuer, the cloud and the
  provisioning engine are outside the provider. Their objects are opaque handles; each
  of their operations takes the state of the outside world and returns an error or a
  result together with the new state of the world.
\<close>

type_synonym bytes = string
type_synonym KeyStore = nat
type_synonym Keyset = nat
type_synonym Certificate = nat
type_synonym PrivateKey = nat
type_synonym Cloud = nat
type_synonym KubernetesClient = nat
type_synonym ClusterValidator = nat
type_synonym ClusterStatus = nat
type_synonym ResourceTrackers = nat

record IssueCertRequest =
  Signer :: string
  CertType :: string
  CommonName :: string
  Organization :: "string list"
  Validity :: Duration

record KubeconfigBuilder =
  Context :: string
  Server :: string
  CACerts :: bytes
  ClientCert :: bytes
  ClientKey :: bytes

definition NewKubeconfigBuilder :: KubeconfigBuilder where
  "NewKubeconfigBuilder =
     \<lparr>Context = '''', Server = '''', CACerts = '''', ClientCert = '''', ClientKey = ''''\<rparr>"

record RestConfig =
  Host :: string
  CAData :: bytes
  CertData :: bytes
  KeyData :: bytes

record ApiCluster =
  ClusterServer :: string
  CertificateAuthorityData :: bytes

record ApiContext =
  ContextCluster :: string
  AuthInfo :: string

record ApiAuthInfo =
  ClientCertificateData :: bytes
  ClientKeyData :: bytes

record ApiConfig =
  APIVersion :: string
  Kind :: string
  Clusters :: "string \<rightharpoonup> ApiCluster"
  Contexts :: "string \<rightharpoonup> ApiContext"
  CurrentContext :: string
  AuthInfos :: "string \<rightharpoonup> ApiAuthInfo"

record 'r ApplyClusterCmd =
  CmdCloud :: Cloud
  CmdCluster :: "'r Cluster"
  TargetName :: string

definition CertificateIDCA :: string where
  "CertificateIDCA = ''kubernetes-ca''"

definition SystemPrivilegedGroup :: string where
  "SystemPrivilegedGroup = ''system:masters''"

definition GroupVersion_String :: string where
  "GroupVersion_String = ''cluster.x-k8s.io/v1beta1''"

definition TargetDirect :: string where
  "TargetDirect = ''direct''"

definition ResourceCredentialsSecretKubeconfigKey :: string where
  "ResourceCredentialsSecretKubeconfigKey = ''kubeconfig''"

text \<open>A call to a collaborator, with its arguments.\<close>

datatype ('r, 'g) call =
    GetCluster_call string
  | InstanceGroups_List_call "'r Cluster"
  | KeyStore_call "'r Cluster"
  | FindKeyset_call KeyStore string
  | ToCertificateBytes_call Keyset
  | IssueCert_call IssueCertRequest KeyStore
  | Certificate_AsBytes_call Certificate
  | PrivateKey_AsBytes_call PrivateKey
  | BuildRestConfig_call KubeconfigBuilder
  | NewForConfig_call RestConfig
  | BuildCloud_call "'r Cluster"
  | NewClusterValidator_call "'r Cluster" Cloud "'g InstanceGroupList" string KubernetesClient
  | Validate_call ClusterValidator
  | Write_call ApiConfig
  | CreateCluster_call "'r Cluster"
  | InstanceGroups_Create_call "'r Cluster" "'g InstanceGroup"
  | PerformAssignments_call "'r Cluster" Cloud
  | ApplyClusterCmd_Run_call "'r ApplyClusterCmd"
  | FindClusterStatus_call Cloud "'r Cluster"
  | UpdateCluster_call "'r Cluster" ClusterStatus
  | InstanceGroups_Update_call "'r Cluster" "'g InstanceGroup"
  | ListResources_call Cloud "'r Cluster" string
  | DeleteResources_call Cloud ResourceTrackers
  | DeleteCluster_call "'r Cluster"

type_synonym ('w, 'a) external = "'w \<Rightarrow> (error + 'a) \<times> 'w"

text \<open>
  What the collaborators do. \<open>FindKeyset\<close> may return no key set without an error;
  \<open>PerformAssignments\<close> fills fields of the cluster it is given, so it returns the cluster.
\<close>

record ('w, 'r, 'g) collaborators =
  GetCluster :: "string \<Rightarrow> ('w, 'r Cluster) external"
  InstanceGroups_List :: "'r Cluster \<Rightarrow> ('w, 'g InstanceGroupList) external"
  Clientset_KeyStore :: "'r Cluster \<Rightarrow> ('w, KeyStore) external"
  FindKeyset :: "KeyStore \<Rightarrow> string \<Rightarrow> ('w, Keyset option) external"
  ToCertificateBytes :: "Keyset \<Rightarrow> ('w, bytes) external"
  IssueCert :: "IssueCertRequest \<Rightarrow> KeyStore \<Rightarrow> ('w, Certificate \<times> PrivateKey) external"
  Certificate_AsBytes :: "Certificate \<Rightarrow> ('w, bytes) external"
  PrivateKey_AsBytes :: "PrivateKey \<Rightarrow> ('w, bytes) external"
  BuildRestConfig :: "KubeconfigBuilder \<Rightarrow> ('w, RestConfig) external"
  NewForConfig :: "RestConfig \<Rightarrow> ('w, KubernetesClient) external"
  BuildCloud :: "'r Cluster \<Rightarrow> ('w, Cloud) external"
  NewClusterValidator ::
    "'r Cluster \<Rightarrow> Cloud \<Rightarrow> 'g InstanceGroupList \<Rightarrow> string \<Rightarrow> KubernetesClient
       \<Rightarrow> ('w, ClusterValidator) external"
  Validate :: "ClusterValidator \<Rightarrow> ('w, ValidationCluster) external"
  Write :: "ApiConfig \<Rightarrow> ('w, bytes) external"
  CreateCluster :: "'r Cluster \<Rightarrow> ('w, 'r Cluster) external"
  InstanceGroups_Create :: "'r Cluster \<Rightarrow> 'g InstanceGroup \<Rightarrow> ('w, 'g InstanceGroup) external"
  PerformAssignments :: "'r Cluster \<Rightarrow> Cloud \<Rightarrow> ('w, 'r Cluster) external"
  ApplyClusterCmd_Run :: "'r ApplyClusterCmd \<Rightarrow> ('w, unit) external"
  FindClusterStatus :: "Cloud \<Rightarrow> 'r Cluster \<Rightarrow> ('w, ClusterStatus) external"
  UpdateCluster :: "'r Cluster \<Rightarrow> ClusterStatus \<Rightarrow> ('w, 'r Cluster) external"
  InstanceGroups_Update :: "'r Cluster \<Rightarrow> 'g InstanceGroup \<Rightarrow> ('w, 'g InstanceGroup) external"
  ListResources :: "Cloud \<Rightarrow> 'r Cluster \<Rightarrow> string \<Rightarrow> ('w, ResourceTrackers) external"
  DeleteResources :: "Cloud \<Rightarrow> ResourceTrackers \<Rightarrow> ('w, unit) external"
  DeleteCluster :: "'r Cluster \<Rightarrow> ('w, unit) external"

section \<open>State and sequencing\<close>

text \<open>
  The state threaded through an operation: the outside world, and the calls made so far,
  each with the error it returned (\<open>None\<close> when it succeeded).
\<close>

record ('w, 'r, 'g) state =
  world :: 'w
  calls :: "(('r, 'g) call \<times> error option) list"

type_synonym ('w, 'r, 'g, 'a) action = "('w, 'r, 'g) state \<Rightarrow> (error + 'a) \<times> ('w, 'r, 'g) state"

definition outcome :: "error + 'a \<Rightarrow> error option" where
  "outcome r = (case r of Inl err \<Rightarrow> Some err | Inr _ \<Rightarrow> None)"

definition invoke :: "('r, 'g) call \<Rightarrow> ('w, 'a) external \<Rightarrow> ('w, 'r, 'g, 'a) action" where
  "invoke c operation s =
     (case operation (world s) of
        (r, w) \<Rightarrow> (r, \<lparr>world = w, calls = calls s @ [(c, outcome r)]\<rparr>))"

text \<open>\<open>x, err := m; if err != nil { return nil, err }\<close>, then the rest with \<open>x\<close>.\<close>

definition andThen ::
    "('w, 'r, 'g, 'a) action \<Rightarrow> ('a \<Rightarrow> ('w, 'r, 'g, 'b) action) \<Rightarrow> ('w, 'r, 'g, 'b) action" where
  "andThen m f s = (case m s of (Inl err, s1) \<Rightarrow> (Inl err, s1) | (Inr x, s1) \<Rightarrow> f x s1)"

text \<open>The error of \<open>m\<close>, when there is one, is returned as \<open>f err\<close>.\<close>

definition onError :: "(error \<Rightarrow> error) \<Rightarrow> ('w, 'r, 'g, 'a) action \<Rightarrow> ('w, 'r, 'g, 'a) action" where
  "onError f m s = (case m s of (Inl err, s1) \<Rightarrow> (Inl (f err), s1) | (Inr x, s1) \<Rightarrow> (Inr x, s1))"

definition failWith :: "error \<Rightarrow> ('w, 'r, 'g, 'a) action" where
  "failWith err s = (Inl err, s)"

section \<open>Utilities that call the collaborators\<close>

definition CreateClusterSpec :: "('r, 'g) Kops \<Rightarrow> 'r Cluster" where
  "CreateClusterSpec cr =
     (let clusterSpec = ClusterSpec (ForProvider cr);
          clusterSpec = clusterSpec\<lparr>ConfigBase :=
             StateBucket (ForProvider cr) @ ''/'' @ ExternalName cr @ ''.'' @ Domain (ForProvider cr)\<rparr>
      in \<lparr>Name = ExternalName cr @ ''.'' @ Domain (ForProvider cr), Spec = clusterSpec\<rparr>)"

definition CreateInstanceGroupSpec :: "'g InstanceGroupSpec \<Rightarrow> 'g InstanceGroup" where
  "CreateInstanceGroupSpec cr = \<lparr>IGName = instancegroup_label cr, IGSpec = cr\<rparr>"

definition GetKubeconfigFromKopsState ::
    "('w, 'r, 'g) collaborators \<Rightarrow> 'r Cluster \<Rightarrow> Duration \<Rightarrow> ('w, 'r, 'g, RestConfig) action" where
  "GetKubeconfigFromKopsState env kopsCluster kubernetesAPICertificateTTL =
     (let builder = NewKubeconfigBuilder in
      andThen (invoke (KeyStore_call kopsCluster) (Clientset_KeyStore env kopsCluster)) (\<lambda>keyStore.
      let builder = builder\<lparr>Context := Name kopsCluster\<rparr>;
          builder = builder\<lparr>Server := ''https://api.'' @ Name kopsCluster\<rparr> in
      andThen (invoke (FindKeyset_call keyStore CertificateIDCA)
                 (FindKeyset env keyStore CertificateIDCA)) (\<lambda>keySet.
      case keySet of
        None \<Rightarrow> failWith (New ''cannot find CA certificate'')
      | Some keySet \<Rightarrow>
      andThen (invoke (ToCertificateBytes_call keySet) (ToCertificateBytes env keySet)) (\<lambda>caCerts.
      let builder = builder\<lparr>CACerts := caCerts\<rparr>;
          ttl = (if kubernetesAPICertificateTTL = 0 then 18 else kubernetesAPICertificateTTL);
          req = \<lparr>Signer = CertificateIDCA, CertType = ''client'',
                 CommonName = ''kops-operator'', Organization = [SystemPrivilegedGroup],
                 Validity = ttl * Hour\<rparr> in
      andThen (invoke (IssueCert_call req keyStore) (IssueCert env req keyStore))
        (\<lambda>(cert, privateKey).
      andThen (invoke (Certificate_AsBytes_call cert) (Certificate_AsBytes env cert)) (\<lambda>clientCert.
      let builder = builder\<lparr>ClientCert := clientCert\<rparr> in
      andThen (invoke (PrivateKey_AsBytes_call privateKey) (PrivateKey_AsBytes env privateKey))
        (\<lambda>clientKey.
      let builder = builder\<lparr>ClientKey := clientKey\<rparr> in
      invoke (BuildRestConfig_call builder) (BuildRestConfig env builder))))))))"

definition ValidateKopsCluster ::
    "('w, 'r, 'g) collaborators \<Rightarrow> 'r Cluster \<Rightarrow> 'g InstanceGroupList \<Rightarrow> Duration
       \<Rightarrow> ('w, 'r, 'g, ValidationCluster) action" where
  "ValidateKopsCluster env kopsCluster igs kubernetesAPICertificateTTL =
     andThen (GetKubeconfigFromKopsState env kopsCluster kubernetesAPICertificateTTL) (\<lambda>config.
     andThen (invoke (NewForConfig_call config) (NewForConfig env config)) (\<lambda>k8sClient.
     andThen (invoke (BuildCloud_call kopsCluster) (BuildCloud env kopsCluster)) (\<lambda>cloud.
     let url = ''https://api.'' @ Name kopsCluster @ '':443'' in
     andThen (onError (\<lambda>err. New (''unexpected error creating validator: '' @ Error err))
                (invoke (NewClusterValidator_call kopsCluster cloud igs url k8sClient)
                   (NewClusterValidator env kopsCluster cloud igs url k8sClient))) (\<lambda>validator.
     onError (\<lambda>err. New (Error err))
       (invoke (Validate_call validator) (Validate env validator))))))"

definition GenerateKubeConfig ::
    "('w, 'r, 'g) collaborators \<Rightarrow> 'r Cluster \<Rightarrow> Duration \<Rightarrow> ('w, 'r, 'g, bytes) action" where
  "GenerateKubeConfig env kopsCluster kubernetesAPICertificateTTL =
     andThen (GetKubeconfigFromKopsState env kopsCluster kubernetesAPICertificateTTL) (\<lambda>config.
     let clusterName = Name kopsCluster;
         kc = \<lparr>APIVersion = GroupVersion_String,
               Kind = ''Cluster'',
               Clusters = [clusterName \<mapsto>
                 \<lparr>ClusterServer = Host config, CertificateAuthorityData = CAData config\<rparr>],
               Contexts = [clusterName \<mapsto>
                 \<lparr>ContextCluster = clusterName, AuthInfo = clusterName\<rparr>],
               CurrentContext = Name kopsCluster,
               AuthInfos = [clusterName \<mapsto>
                 \<lparr>ClientCertificateData = CertData config, ClientKeyData = KeyData config\<rparr>]\<rparr>
     in onError (\<lambda>err. Wrap err ''failed to serialize config to yaml'')
          (invoke (Write_call kc) (Write env kc)))"

definition GetClusterStatus ::
    "('w, 'r, 'g) collaborators \<Rightarrow> 'r Cluster \<Rightarrow> Cloud \<Rightarrow> ('w, 'r, 'g, ClusterStatus) action" where
  "GetClusterStatus env kopsCluster cloud =
     invoke (FindClusterStatus_call cloud kopsCluster) (FindClusterStatus env cloud kopsCluster)"

section \<open>The controller\<close>

definition errNotKops :: string where
  "errNotKops = ''managed resource is not a Kops custom resource''"

definition errDeleteCluster :: string where
  "errDeleteCluster = ''cannot delete Kops cluster from API''"

definition errNewCluster :: string where
  "errNewCluster = ''cannot create Kops cluster''"

definition errNewClusterState :: string where
  "errNewClusterState = ''cannot create Kops cluster state''"

definition errNewInstanceGroupState :: string where
  "errNewInstanceGroupState = ''cannot create Kops instance group state''"

definition errNewCloud :: string where
  "errNewCloud = ''cannot create Kops cloud''"

definition errNewCloudAssignment :: string where
  "errNewCloudAssignment = ''cannot assign Kops cloud''"

definition errGetCluster :: string where
  "errGetCluster = ''cannot get Kops cluster from API''"

definition errGetInstanceGroup :: string where
  "errGetInstanceGroup = ''cannot get Kops instance group from API''"

definition errValidateCluster :: string where
  "errValidateCluster = ''cannot validate Kops cluster''"

definition errEvaluateClusterState :: string where
  "errEvaluateClusterState = ''cannot evaluate Kops cluster state''"

definition errGetKubeConfig :: string where
  "errGetKubeConfig = ''cannot get KubeConfig''"

definition errGetClusterStatus :: string where
  "errGetClusterStatus = ''cannot get Kops cluster status''"

definition errUpdateCluster :: string where
  "errUpdateCluster = ''cannot update Kops cluster''"

definition errUpdateClusterState :: string where
  "errUpdateClusterState = ''cannot update Kops cluster state''"

definition errDeleteResources :: string where
  "errDeleteResources = ''cannot delete Kops resources''"

text \<open>
  \<open>ConnectionDetails\<close> is a Go map, \<open>None\<close> when nil. The zero value of each result
  struct is what the operations return beside an error.
\<close>

record ExternalObservation =
  ResourceExists :: bool
  ResourceUpToDate :: bool
  ConnectionDetails :: "(string \<rightharpoonup> bytes) option"

record ExternalCreation =
  CreationConnectionDetails :: "(string \<rightharpoonup> bytes) option"

record ExternalUpdate =
  UpdateConnectionDetails :: "(string \<rightharpoonup> bytes) option"

definition ZeroObservation :: ExternalObservation where
  "ZeroObservation =
     \<lparr>ResourceExists = False, ResourceUpToDate = False, ConnectionDetails = None\<rparr>"

definition ZeroCreation :: ExternalCreation where
  "ZeroCreation = \<lparr>CreationConnectionDetails = None\<rparr>"

definition ZeroUpdate :: ExternalUpdate where
  "ZeroUpdate = \<lparr>UpdateConnectionDetails = None\<rparr>"

text \<open>\<open>fmt.Errorf("%s", res)\<close> for a slice of strings: the elements between brackets.\<close>

fun join_strings :: "string list \<Rightarrow> string" where
  "join_strings [] = ''''"
| "join_strings [x] = x"
| "join_strings (x # y # rest) = x @ '' '' @ join_strings (y # rest)"

definition Sprint_strings :: "string list \<Rightarrow> string" where
  "Sprint_strings res = ''['' @ join_strings res @ '']''"

text \<open>
  An operation takes the managed resource and returns it as it leaves it: the resource
  is passed by pointer, and \<open>SetConditions\<close> writes to its status.
\<close>

definition Observe ::
    "('w, 'r, 'g) collaborators \<Rightarrow> ('r, 'g) Managed \<Rightarrow> ('w, 'r, 'g) state
       \<Rightarrow> (ExternalObservation \<times> error option) \<times> ('r, 'g) Managed \<times> ('w, 'r, 'g) state" where
  "Observe env mg s =
     (case mg of
        OtherResource \<Rightarrow> ((ZeroObservation, Some (New errNotKops)), mg, s)
      | KopsResource cr \<Rightarrow>
     let name = ExternalName cr @ ''.'' @ Domain (ForProvider cr);
         ttl = KubernetesAPICertificateTTL (ForProvider cr) in
     (case invoke (GetCluster_call name) (GetCluster env name) s of
        (Inl err, s1) \<Rightarrow>
          if ErrNotFound err
          then ((ZeroObservation\<lparr>ResourceExists := False\<rparr>, None), mg, s1)
          else ((ZeroObservation\<lparr>ResourceExists := False\<rparr>, Some (Wrap err errGetCluster)),
                mg, s1)
      | (Inr cluster, s1) \<Rightarrow>
     (case invoke (InstanceGroups_List_call cluster) (InstanceGroups_List env cluster) s1 of
        (Inl err, s2) \<Rightarrow>
          ((ZeroObservation\<lparr>ResourceExists := False\<rparr>, Some (Wrap err errGetInstanceGroup)),
           mg, s2)
      | (Inr ig, s2) \<Rightarrow>
     (case ValidateKopsCluster env cluster ig ttl s2 of
        (Inl err, s3) \<Rightarrow>
          ((ZeroObservation\<lparr>ResourceExists := False\<rparr>, Some (Wrap err errValidateCluster)),
           mg, s3)
      | (Inr validate, s3) \<Rightarrow>
     (case EvaluateKopsValidationResult validate of (ok, res) \<Rightarrow>
     if \<not> ok
     then ((ZeroObservation\<lparr>ResourceExists := False\<rparr>,
            Some (Wrap (New (Sprint_strings res)) errEvaluateClusterState)), mg, s3)
     else
     (case GenerateKubeConfig env cluster ttl s3 of
        (Inl err, s4) \<Rightarrow>
          ((ZeroObservation\<lparr>ResourceExists := False\<rparr>, Some (Wrap err errGetKubeConfig)),
           mg, s4)
      | (Inr kubeconfig, s4) \<Rightarrow>
     let conn = [ResourceCredentialsSecretKubeconfigKey \<mapsto> kubeconfig];
         cr1 = cr\<lparr>Conditions := SetConditions Available (Conditions cr)\<rparr>;
         h = two_objects (ClusterSpec (ForProvider cr1)) (Spec cluster);
         (clusterUpToDate, h1) = ClusterResourceUpToDate desired_addr observed_addr h;
         cr2 = cr1\<lparr>ForProvider := (ForProvider cr1)\<lparr>ClusterSpec := h1 desired_addr\<rparr>\<rparr>
     in ((\<lparr>ResourceExists = True,
           ResourceUpToDate =
             (clusterUpToDate \<and>
              InstanceGroupListResourceUpToDate (InstanceGroupSpec (ForProvider cr2)) ig),
           ConnectionDetails = Some conn\<rparr>, None),
         KopsResource cr2, s4)))))))"

text \<open>The loop of \<open>Create\<close> over the desired instance groups; it returns at the first error.\<close>

fun create_instance_groups ::
    "('w, 'r, 'g) collaborators \<Rightarrow> 'r Cluster \<Rightarrow> 'g InstanceGroupSpec list
       \<Rightarrow> ('w, 'r, 'g, unit) action" where
  "create_instance_groups env cluster [] s = (Inr (), s)"
| "create_instance_groups env cluster (ig # rest) s =
     (case invoke (InstanceGroups_Create_call cluster (CreateInstanceGroupSpec ig))
             (InstanceGroups_Create env cluster (CreateInstanceGroupSpec ig)) s of
        (Inl err, s1) \<Rightarrow> (Inl (Wrap err errNewInstanceGroupState), s1)
      | (Inr _, s1) \<Rightarrow> create_instance_groups env cluster rest s1)"

definition Create ::
    "('w, 'r, 'g) collaborators \<Rightarrow> ('r, 'g) Managed \<Rightarrow> ('w, 'r, 'g) state
       \<Rightarrow> (ExternalCreation \<times> error option) \<times> ('r, 'g) Managed \<times> ('w, 'r, 'g) state" where
  "Create env mg s =
     (case mg of
        OtherResource \<Rightarrow> ((ZeroCreation, Some (New errNotKops)), mg, s)
      | KopsResource cr \<Rightarrow>
     (case invoke (CreateCluster_call (CreateClusterSpec cr))
             (CreateCluster env (CreateClusterSpec cr)) s of
        (Inl err, s1) \<Rightarrow> ((ZeroCreation, Some (Wrap err errNewClusterState)), mg, s1)
      | (Inr cluster, s1) \<Rightarrow>
     (case create_instance_groups env cluster (InstanceGroupSpec (ForProvider cr)) s1 of
        (Inl err, s2) \<Rightarrow> ((ZeroCreation, Some err), mg, s2)
      | (Inr _, s2) \<Rightarrow>
     (case invoke (BuildCloud_call cluster) (BuildCloud env cluster) s2 of
        (Inl err, s3) \<Rightarrow> ((ZeroCreation, Some (Wrap err errNewCloud)), mg, s3)
      | (Inr cloud, s3) \<Rightarrow>
     (case invoke (PerformAssignments_call cluster cloud)
             (PerformAssignments env cluster cloud) s3 of
        (Inl err, s4) \<Rightarrow> ((ZeroCreation, Some (Wrap err errNewCloudAssignment)), mg, s4)
      | (Inr cluster1, s4) \<Rightarrow>
     let applyCmd = \<lparr>CmdCloud = cloud, CmdCluster = cluster1, TargetName = TargetDirect\<rparr> in
     (case invoke (ApplyClusterCmd_Run_call applyCmd) (ApplyClusterCmd_Run env applyCmd) s4 of
        (Inl err, s5) \<Rightarrow> ((ZeroCreation, Some (Wrap err errNewCluster)), mg, s5)
      | (Inr _, s5) \<Rightarrow>
     let cr1 = cr\<lparr>Conditions := SetConditions Creating (Conditions cr)\<rparr>
     in ((\<lparr>CreationConnectionDetails = Some Map.empty\<rparr>, None), KopsResource cr1, s5)))))))"

text \<open>The loop of \<open>Update\<close> over the desired instance groups.\<close>

fun update_instance_groups ::
    "('w, 'r, 'g) collaborators \<Rightarrow> 'r Cluster \<Rightarrow> 'g InstanceGroupSpec list
       \<Rightarrow> ('w, 'r, 'g, unit) action" where
  "update_instance_groups env clusterToUpdate [] s = (Inr (), s)"
| "update_instance_groups env clusterToUpdate (ig # rest) s =
     (case invoke (InstanceGroups_Update_call clusterToUpdate (CreateInstanceGroupSpec ig))
             (InstanceGroups_Update env clusterToUpdate (CreateInstanceGroupSpec ig)) s of
        (Inl err, s1) \<Rightarrow> (Inl (Wrap err errNewInstanceGroupState), s1)
      | (Inr _, s1) \<Rightarrow> update_instance_groups env clusterToUpdate rest s1)"

definition Update ::
    "('w, 'r, 'g) collaborators \<Rightarrow> ('r, 'g) Managed \<Rightarrow> ('w, 'r, 'g) state
       \<Rightarrow> (ExternalUpdate \<times> error option) \<times> ('r, 'g) Managed \<times> ('w, 'r, 'g) state" where
  "Update env mg s =
     (case mg of
        OtherResource \<Rightarrow> ((ZeroUpdate, Some (New errNotKops)), mg, s)
      | KopsResource cr \<Rightarrow>
     let cluster = CreateClusterSpec cr in
     (case invoke (BuildCloud_call cluster) (BuildCloud env cluster) s of
        (Inl err, s1) \<Rightarrow> ((ZeroUpdate, Some (Wrap err errNewCloud)), mg, s1)
      | (Inr cloud, s1) \<Rightarrow>
     (case invoke (PerformAssignments_call cluster cloud)
             (PerformAssignments env cluster cloud) s1 of
        (Inl err, s2) \<Rightarrow> ((ZeroUpdate, Some (Wrap err errNewCloudAssignment)), mg, s2)
      | (Inr cluster1, s2) \<Rightarrow>
     (case GetClusterStatus env cluster1 cloud s2 of
        (Inl err, s3) \<Rightarrow> ((ZeroUpdate, Some (Wrap err errGetClusterStatus)), mg, s3)
      | (Inr status, s3) \<Rightarrow>
     (case invoke (UpdateCluster_call cluster1 status) (UpdateCluster env cluster1 status) s3 of
        (Inl err, s4) \<Rightarrow> ((ZeroUpdate, Some (Wrap err errUpdateClusterState)), mg, s4)
      | (Inr clusterToUpdate, s4) \<Rightarrow>
     (case update_instance_groups env clusterToUpdate (InstanceGroupSpec (ForProvider cr)) s4 of
        (Inl err, s5) \<Rightarrow> ((ZeroUpdate, Some err), mg, s5)
      | (Inr _, s5) \<Rightarrow>
     let applyCmd = \<lparr>CmdCloud = cloud, CmdCluster = clusterToUpdate, TargetName = TargetDirect\<rparr> in
     (case invoke (ApplyClusterCmd_Run_call applyCmd) (ApplyClusterCmd_Run env applyCmd) s5 of
        (Inl err, s6) \<Rightarrow> ((ZeroUpdate, Some (Wrap err errUpdateCluster)), mg, s6)
      | (Inr _, s6) \<Rightarrow>
     ((\<lparr>UpdateConnectionDetails = Some Map.empty\<rparr>, None), mg, s6))))))))"

definition Delete ::
    "('w, 'r, 'g) collaborators \<Rightarrow> ('r, 'g) Managed \<Rightarrow> ('w, 'r, 'g) state
       \<Rightarrow> error option \<times> ('r, 'g) Managed \<times> ('w, 'r, 'g) state" where
  "Delete env mg s =
     (case mg of
        OtherResource \<Rightarrow> (Some (New errNotKops), mg, s)
      | KopsResource cr \<Rightarrow>
     let name = ExternalName cr @ ''.'' @ Domain (ForProvider cr) in
     (case invoke (GetCluster_call name) (GetCluster env name) s of
        (Inl err, s1) \<Rightarrow> (Some (Wrap err errGetCluster), mg, s1)
      | (Inr cluster, s1) \<Rightarrow>
     (case invoke (BuildCloud_call cluster) (BuildCloud env cluster) s1 of
        (Inl err, s2) \<Rightarrow> (Some (Wrap err errDeleteCluster), mg, s2)
      | (Inr cloud, s2) \<Rightarrow>
     (case invoke (ListResources_call cloud cluster (Region (ForProvider cr)))
             (ListResources env cloud cluster (Region (ForProvider cr))) s2 of
        (Inl err, s3) \<Rightarrow> (Some err, mg, s3)
      | (Inr allResources, s3) \<Rightarrow>
     (case invoke (DeleteResources_call cloud allResources)
             (DeleteResources env cloud allResources) s3 of
        (Inl err, s4) \<Rightarrow> (Some (Wrap err errDeleteResources), mg, s4)
      | (Inr _, s4) \<Rightarrow>
     (case invoke (DeleteCluster_call cluster) (DeleteCluster env cluster) s4 of
        (Inl err, s5) \<Rightarrow> (Some (Wrap err errDeleteCluster), mg, s5)
      | (Inr _, s5) \<Rightarrow>
     let cr1 = cr\<lparr>Conditions := SetConditions Deleting (Conditions cr)\<rparr>
     in (None, KopsResource cr1, s5)))))))"

section \<open>Reading a run\<close>

definition conditions_of :: "('r, 'g) Managed \<Rightarrow> Condition list" where
  "conditions_of mg = (case mg of KopsResource cr \<Rightarrow> Conditions cr | OtherResource \<Rightarrow> [])"

text \<open>The certificate requests among the calls of a run, in order.\<close>

definition cert_requests :: "(('r, 'g) call \<times> error option) list \<Rightarrow> IssueCertRequest list" where
  "cert_requests cs =
     concat (map (\<lambda>c. case fst c of IssueCert_call req keyStore \<Rightarrow> [req] | _ \<Rightarrow> []) cs)"

text \<open>The instance groups handed to instance-group-create among the calls of a run, in order.\<close>

definition created_groups :: "(('r, 'g) call \<times> error option) list \<Rightarrow> 'g InstanceGroup list" where
  "created_groups cs =
     concat (map (\<lambda>c. case fst c of InstanceGroups_Create_call cluster ig \<Rightarrow> [ig] | _ \<Rightarrow> []) cs)"

text \<open>The calls that follow the instance groups in \<open>Create\<close>: cloud and provisioning engine.\<close>

definition provisions :: "('r, 'g) call \<Rightarrow> bool" where
  "provisions c =
     (case c of
        BuildCloud_call cluster \<Rightarrow> True
      | PerformAssignments_call cluster cloud \<Rightarrow> True
      | ApplyClusterCmd_Run_call cmd \<Rightarrow> True
      | _ \<Rightarrow> False)"

text \<open>The calls that remove something: what a rollback would issue.\<close>

definition removes :: "('r, 'g) call \<Rightarrow> bool" where
  "removes c =
     (case c of
        DeleteResources_call cloud resources \<Rightarrow> True
      | DeleteCluster_call cluster \<Rightarrow> True
      | _ \<Rightarrow> False)"

definition creates_cluster :: "('r, 'g) call \<Rightarrow> bool" where
  "creates_cluster c = (case c of CreateCluster_call cluster \<Rightarrow> True | _ \<Rightarrow> False)"

text \<open>An instance-group-create call that succeeded.\<close>

definition created ::
    "'r Cluster \<Rightarrow> 'g InstanceGroupSpec \<Rightarrow> ('r, 'g) call \<times> error option" where
  "created cluster ig = (InstanceGroups_Create_call cluster (CreateInstanceGroupSpec ig), None)"

text \<open>An error that carries a tag: one made by \<open>errors.Wrap\<close>.\<close>

fun tagged :: "error \<Rightarrow> bool" where
  "tagged (Wrap cause tag) = True"
| "tagged (New msg) = False"

section \<open>A backend for concrete runs\<close>

text \<open>
  The example resource of the repository: cluster \<open>example.foo.com\<close> with the instance
  groups \<open>master\<close> and \<open>nodes\<close>. The fields the provider does not read are a string.
\<close>

definition example_spec :: "string ClusterSpec" where
  "example_spec =
     \<lparr>ConfigBase = '''', MasterPublicName = '''',
      OtherClusterFields = ''kubernetesVersion: 1.23.8''\<rparr>"

definition master_group :: "string InstanceGroupSpec" where
  "master_group =
     \<lparr>NodeLabels = Some [''kops.k8s.io/instancegroup'' \<mapsto> ''master''],
      OtherInstanceGroupFields = ''role: Master, machineType: t3.medium''\<rparr>"

definition nodes_group :: "string InstanceGroupSpec" where
  "nodes_group =
     \<lparr>NodeLabels = Some [''kops.k8s.io/instancegroup'' \<mapsto> ''nodes''],
      OtherInstanceGroupFields = ''role: Node, machineType: t3.medium''\<rparr>"

definition example_cr :: "(string, string) Kops" where
  "example_cr =
     \<lparr>ExternalName = ''example'',
      ForProvider =
        \<lparr>ClusterSpec = example_spec,
         InstanceGroupSpec = [master_group, nodes_group],
         Domain = ''foo.com'',
         StateBucket = ''s3://bar-kops-state'',
         Region = ''us-east-1'',
         KubernetesAPICertificateTTL = 0\<rparr>,
      Conditions = []\<rparr>"

definition initial_state :: "(unit, string, string) state" where
  "initial_state = \<lparr>world = (), calls = []\<rparr>"

definition returns :: "'a \<Rightarrow> (unit, 'a) external" where
  "returns x w = (Inr x, w)"

definition refuses :: "string \<Rightarrow> (unit, 'a) external" where
  "refuses msg w = (Inl (New msg), w)"

text \<open>
  A backend that stores one cluster with its instance groups and reports a validation
  result; every call succeeds.
\<close>

definition backend ::
    "string ClusterSpec \<Rightarrow> string InstanceGroupSpec list \<Rightarrow> ValidationCluster
       \<Rightarrow> (unit, string, string) collaborators" where
  "backend stored groups health =
     \<lparr>GetCluster = (\<lambda>name. returns \<lparr>Name = name, Spec = stored\<rparr>),
      InstanceGroups_List = (\<lambda>cluster. returns \<lparr>Items = map CreateInstanceGroupSpec groups\<rparr>),
      Clientset_KeyStore = (\<lambda>cluster. returns 1),
      FindKeyset = (\<lambda>keyStore name. returns (Some 1)),
      ToCertificateBytes = (\<lambda>keySet. returns ''ca certificate''),
      IssueCert = (\<lambda>req keyStore. returns (1, 1)),
      Certificate_AsBytes = (\<lambda>cert. returns ''client certificate''),
      PrivateKey_AsBytes = (\<lambda>key. returns ''client key''),
      BuildRestConfig = (\<lambda>builder. returns
        \<lparr>Host = Server builder, CAData = CACerts builder,
         CertData = ClientCert builder, KeyData = ClientKey builder\<rparr>),
      NewForConfig = (\<lambda>config. returns 1),
      BuildCloud = (\<lambda>cluster. returns 1),
      NewClusterValidator = (\<lambda>cluster cloud igs url client. returns 1),
      Validate = (\<lambda>validator. returns health),
      Write = (\<lambda>kc. returns ''kubeconfig document''),
      CreateCluster = (\<lambda>cluster. returns cluster),
      InstanceGroups_Create = (\<lambda>cluster ig. returns ig),
      PerformAssignments = (\<lambda>cluster cloud. returns cluster),
      ApplyClusterCmd_Run = (\<lambda>cmd. returns ()),
      FindClusterStatus = (\<lambda>cloud cluster. returns 1),
      UpdateCluster = (\<lambda>cluster status. returns cluster),
      InstanceGroups_Update = (\<lambda>cluster ig. returns ig),
      ListResources = (\<lambda>cloud cluster region. returns 1),
      DeleteResources = (\<lambda>cloud resources. returns ()),
      DeleteCluster = (\<lambda>cluster. returns ())\<rparr>"

definition healthy :: ValidationCluster where
  "healthy =
     \<lparr>Failures = [],
      Nodes = [\<lparr>Hostname = ''ip-172-20-32-10'', Status = ''True''\<rparr>,
               \<lparr>Hostname = ''ip-172-20-32-11'', Status = ''True''\<rparr>]\<rparr>"

text \<open>The stored cluster as kops returns it: the derived fields are filled in.\<close>

definition stored_spec :: "string ClusterSpec" where
  "stored_spec =
     \<lparr>ConfigBase = ''s3://bar-kops-state/example.foo.com'',
      MasterPublicName = ''api.example.foo.com'',
      OtherClusterFields = ''kubernetesVersion: 1.23.8''\<rparr>"

text \<open>The stored cluster runs an older version than the desired one.\<close>

definition outdated_spec :: "string ClusterSpec" where
  "outdated_spec =
     \<lparr>ConfigBase = ''s3://bar-kops-state/example.foo.com'',
      MasterPublicName = ''api.example.foo.com'',
      OtherClusterFields = ''kubernetesVersion: 1.22.0''\<rparr>"

definition backend_up_to_date :: "(unit, string, string) collaborators" where
  "backend_up_to_date = backend stored_spec [master_group, nodes_group] healthy"

definition backend_outdated :: "(unit, string, string) collaborators" where
  "backend_outdated = backend outdated_spec [master_group, nodes_group] healthy"

definition backend_without_cluster :: "(unit, string, string) collaborators" where
  "backend_without_cluster =
     backend_up_to_date\<lparr>GetCluster := (\<lambda>name. refuses ''cluster not found'')\<rparr>"

definition backend_unreachable :: "(unit, string, string) collaborators" where
  "backend_unreachable =
     backend_up_to_date\<lparr>GetCluster := (\<lambda>name. refuses ''connection refused'')\<rparr>"

definition backend_rejecting_cluster :: "(unit, string, string) collaborators" where
  "backend_rejecting_cluster =
     backend_up_to_date\<lparr>CreateCluster := (\<lambda>cluster. refuses ''access denied'')\<rparr>"

definition backend_rejecting_nodes :: "(unit, string, string) collaborators" where
  "backend_rejecting_nodes =
     backend_up_to_date\<lparr>InstanceGroups_Create :=
       (\<lambda>cluster ig. if IGName ig = ''nodes'' then refuses ''quota exceeded'' else returns ig)\<rparr>"

definition backend_failing_listing :: "(unit, string, string) collaborators" where
  "backend_failing_listing =
     backend_up_to_date\<lparr>ListResources := (\<lambda>cloud cluster region. refuses ''throttled'')\<rparr>"

definition backend_failing_cluster_delete :: "(unit, string, string) collaborators" where
  "backend_failing_cluster_delete =
     backend_up_to_date\<lparr>DeleteCluster := (\<lambda>cluster. refuses ''access denied'')\<rparr>"

section \<open>Properties of the text classifier\<close>

lemma Contains_sublist: "Contains s substr \<longleftrightarrow> sublist substr s"
  by (induction s) (auto simp: sublist_Cons_right)

section \<open>Properties of the validation result\<close>

lemma failure_messages_foldl:
  "foldl (\<lambda>msgs failure. msgs @ [Message failure]) acc fs = acc @ map Message fs"
  by (induction fs arbitrary: acc) simp_all

lemma node_loop_foldl:
  "foldl (\<lambda>(result, msgs) node.
            if Status node = ConditionFalse
            then (False, msgs @ [''node '' @ Hostname node @ '' condition is '' @ Status node])
            else (result, msgs))
         (r, acc) ns =
   (r \<and> (\<forall>n\<in>set ns. Status n \<noteq> ConditionFalse),
    acc @ map (\<lambda>n. ''node '' @ Hostname n @ '' condition is '' @ ConditionFalse)
              (filter (\<lambda>n. Status n = ConditionFalse) ns))"
  by (induction ns arbitrary: r acc) auto

text \<open>
  C8. The result of \<open>EvaluateKopsValidationResult\<close> is true exactly when there is no
  failure and no node whose status is exactly \<open>False\<close>; the messages are those of the
  failures in order, then one \<open>node <hostname> condition is False\<close> per node whose
  status is \<open>False\<close>, in order, with nothing removed.
\<close>

theorem EvaluateKopsValidationResult_spec:
  "EvaluateKopsValidationResult v =
     (Failures v = [] \<and> (\<forall>n\<in>set (Nodes v). Status n \<noteq> ''False''),
      map Message (Failures v) @
      map (\<lambda>n. ''node '' @ Hostname n @ '' condition is '' @ ''False'')
          (filter (\<lambda>n. Status n = ''False'') (Nodes v)))"
proof (cases "Failures v = []")
  case True
  then show ?thesis
    unfolding EvaluateKopsValidationResult_def Let_def
    by (simp add: node_loop_foldl) (simp add: ConditionFalse_def)
next
  case False
  then show ?thesis
    unfolding EvaluateKopsValidationResult_def Let_def
    by (simp add: node_loop_foldl failure_messages_foldl) (simp add: ConditionFalse_def)
qed

theorem EvaluateKopsValidationResult_spec_witness:
  "EvaluateKopsValidationResult
     \<lparr>Failures = [],
      Nodes = [\<lparr>Hostname = ''ip-10-0-0-1'', Status = ''True''\<rparr>,
               \<lparr>Hostname = ''ip-10-0-0-2'', Status = ''Unknown''\<rparr>]\<rparr> = (True, []) \<and>
   EvaluateKopsValidationResult
     \<lparr>Failures = [\<lparr>Message = ''etcd is unhealthy''\<rparr>],
      Nodes = [\<lparr>Hostname = ''ip-10-0-0-1'', Status = ''False''\<rparr>,
               \<lparr>Hostname = ''ip-10-0-0-2'', Status = ''True''\<rparr>,
               \<lparr>Hostname = ''ip-10-0-0-1'', Status = ''False''\<rparr>]\<rparr> =
     (False, [''etcd is unhealthy'', ''node ip-10-0-0-1 condition is False'',
              ''node ip-10-0-0-1 condition is False''])"
  using EvaluateKopsValidationResult_spec
          [of "\<lparr>Failures = [],
                Nodes = [\<lparr>Hostname = ''ip-10-0-0-1'', Status = ''True''\<rparr>,
                         \<lparr>Hostname = ''ip-10-0-0-2'', Status = ''Unknown''\<rparr>]\<rparr>"]
        EvaluateKopsValidationResult_spec
          [of "\<lparr>Failures = [\<lparr>Message = ''etcd is unhealthy''\<rparr>],
                Nodes = [\<lparr>Hostname = ''ip-10-0-0-1'', Status = ''False''\<rparr>,
                         \<lparr>Hostname = ''ip-10-0-0-2'', Status = ''True''\<rparr>,
                         \<lparr>Hostname = ''ip-10-0-0-1'', Status = ''False''\<rparr>]\<rparr>"]
  by simp

section \<open>Properties of the state comparator\<close>

lemma ClusterResourceUpToDate_result:
  "fst (ClusterResourceUpToDate old new h) \<longleftrightarrow>
     old = new \<or> h old = (h new)\<lparr>ConfigBase := '''', MasterPublicName := ''''\<rparr>"
  by (simp add: ClusterResourceUpToDate_def Let_def)

lemma ClusterResourceUpToDate_store:
  "snd (ClusterResourceUpToDate old new h) =
     h(new := (h new)\<lparr>ConfigBase := '''', MasterPublicName := ''''\<rparr>)"
  by (simp add: ClusterResourceUpToDate_def Let_def)

text \<open>
  C4, as the code has it. \<open>ClusterResourceUpToDate\<close> writes through its second pointer:
  after the call the observed spec's \<open>ConfigBase\<close> and \<open>MasterPublicName\<close> are empty.
  What it leaves unchanged is the desired spec (passed through another pointer), the
  other fields of the observed spec and every other cell of the store.
\<close>

theorem ClusterResourceUpToDate_effect:
  assumes "old \<noteq> new"
  shows "snd (ClusterResourceUpToDate old new h) old = h old
       \<and> ConfigBase (snd (ClusterResourceUpToDate old new h) new) = ''''
       \<and> MasterPublicName (snd (ClusterResourceUpToDate old new h) new) = ''''
       \<and> OtherClusterFields (snd (ClusterResourceUpToDate old new h) new)
           = OtherClusterFields (h new)
       \<and> (\<forall>a. a \<noteq> new \<longrightarrow> snd (ClusterResourceUpToDate old new h) a = h a)"
  using assms by (simp add: ClusterResourceUpToDate_store)

theorem ClusterResourceUpToDate_effect_witness:
  "desired_addr \<noteq> observed_addr
   \<and> snd (ClusterResourceUpToDate desired_addr observed_addr
        (two_objects
              \<lparr>ConfigBase = '''', MasterPublicName = '''',
                    OtherClusterFields = ''1.23.8''\<rparr>
              \<lparr>ConfigBase = ''s3://bar-kops-state/example.foo.com'',
                    MasterPublicName = ''api.example.foo.com'',
                    OtherClusterFields = ''1.23.8''\<rparr>)) desired_addr
       = \<lparr>ConfigBase = '''', MasterPublicName = '''', OtherClusterFields = ''1.23.8''\<rparr>
   \<and> ConfigBase (snd (ClusterResourceUpToDate desired_addr observed_addr
        (two_objects
              \<lparr>ConfigBase = '''', MasterPublicName = '''',
                    OtherClusterFields = ''1.23.8''\<rparr>
              \<lparr>ConfigBase = ''s3://bar-kops-state/example.foo.com'',
                    MasterPublicName = ''api.example.foo.com'',
                    OtherClusterFields = ''1.23.8''\<rparr>)) observed_addr) = ''''"
  using ClusterResourceUpToDate_effect
          [of desired_addr observed_addr "two_objects
              \<lparr>ConfigBase = '''', MasterPublicName = '''',
                    OtherClusterFields = ''1.23.8''\<rparr>
              \<lparr>ConfigBase = ''s3://bar-kops-state/example.foo.com'',
                    MasterPublicName = ''api.example.foo.com'',
                    OtherClusterFields = ''1.23.8''\<rparr>"]
  by (simp add: two_objects_def desired_addr_def observed_addr_def)

text \<open>
  C4, as stated, fails: the observed spec's \<open>ConfigBase\<close> and \<open>MasterPublicName\<close> do
  not hold the same values after the call as before it.
\<close>

theorem ClusterResourceUpToDate_not_pure:
  "ConfigBase (snd (ClusterResourceUpToDate desired_addr observed_addr
        (two_objects
              \<lparr>ConfigBase = '''', MasterPublicName = '''',
                    OtherClusterFields = ''1.23.8''\<rparr>
              \<lparr>ConfigBase = ''s3://bar-kops-state/example.foo.com'',
                    MasterPublicName = ''api.example.foo.com'',
                    OtherClusterFields = ''1.23.8''\<rparr>)) observed_addr)
     \<noteq> ''s3://bar-kops-state/example.foo.com''
   \<and> MasterPublicName (snd (ClusterResourceUpToDate desired_addr observed_addr
        (two_objects
              \<lparr>ConfigBase = '''', MasterPublicName = '''',
                    OtherClusterFields = ''1.23.8''\<rparr>
              \<lparr>ConfigBase = ''s3://bar-kops-state/example.foo.com'',
                    MasterPublicName = ''api.example.foo.com'',
                    OtherClusterFields = ''1.23.8''\<rparr>)) observed_addr)
     \<noteq> ''api.example.foo.com''"
  by (simp add: ClusterResourceUpToDate_def Let_def)

text \<open>
  C6, as the code has it. Only the observed spec is normalised, so the comparison
  succeeds for a desired spec whose own \<open>ConfigBase\<close> and \<open>MasterPublicName\<close> are
  empty: then an observed spec that differs from it in those two fields only, whatever
  their values, is up to date.
\<close>

theorem ClusterResourceUpToDate_derived_fields:
  assumes "ConfigBase (h old) = ''''" and "MasterPublicName (h old) = ''''"
    and "h new = (h old)\<lparr>ConfigBase := configBase, MasterPublicName := masterPublicName\<rparr>"
  shows "fst (ClusterResourceUpToDate old new h)"
proof -
  have "(h new)\<lparr>ConfigBase := '''', MasterPublicName := ''''\<rparr> = h old"
    using assms by simp
  then show ?thesis
    by (simp add: ClusterResourceUpToDate_result)
qed

theorem ClusterResourceUpToDate_derived_fields_witness:
  "fst (ClusterResourceUpToDate desired_addr observed_addr
        (two_objects
              \<lparr>ConfigBase = '''', MasterPublicName = '''',
                    OtherClusterFields = ''aws''\<rparr>
              \<lparr>ConfigBase = ''s3://bar-kops-state/example.foo.com'',
                    MasterPublicName = ''api.example.foo.com'',
                    OtherClusterFields = ''aws''\<rparr>))"
  by (rule ClusterResourceUpToDate_derived_fields
            [where configBase = "''s3://bar-kops-state/example.foo.com''"
               and masterPublicName = "''api.example.foo.com''"])
     (simp_all add: two_objects_def desired_addr_def observed_addr_def)

text \<open>
  C6, as stated, fails for a desired spec that sets one of the two fields itself: the
  observed spec below equals the desired one but for the two fields, and is reported
  not up to date.
\<close>

theorem ClusterResourceUpToDate_desired_configBase:
  "\<not> fst (ClusterResourceUpToDate desired_addr observed_addr
        (two_objects
              \<lparr>ConfigBase = ''s3://bar-kops-state/example.foo.com'',
                    MasterPublicName = '''', OtherClusterFields = ''aws''\<rparr>
              \<lparr>ConfigBase = ''s3://bar-kops-state/example.foo.com'',
                    MasterPublicName = ''api.example.foo.com'',
                    OtherClusterFields = ''aws''\<rparr>))"
  by (simp add: ClusterResourceUpToDate_def Let_def two_objects_def
        desired_addr_def observed_addr_def)

lemma compare_with_items_result:
  "compare_with_items oldInstance items =
     (if \<forall>n\<in>set items. instancegroup_label oldInstance = instancegroup_label (IGSpec n)
                          \<longrightarrow> oldInstance = IGSpec n
      then None else Some False)"
  by (induction items) auto

lemma compare_all_result:
  "compare_all old items \<longleftrightarrow>
     (\<forall>oldInstance\<in>set old. \<forall>newInstance\<in>set items.
        instancegroup_label oldInstance = instancegroup_label (IGSpec newInstance)
          \<longrightarrow> oldInstance = IGSpec newInstance)"
  by (induction old) (auto simp: compare_with_items_result)

text \<open>
  C5, as the code has it. The label value of an instance group is what the code reads:
  the value the \<open>NodeLabels\<close> map gives at \<open>kops.k8s.io/instancegroup\<close>, and the
  empty string when the key or the map is absent, so that two groups without the label
  share a label value. When no label value of a desired group is the label value
  of an observed group, \<open>InstanceGroupListResourceUpToDate\<close> is true whatever the
  groups hold; and in general its result is decided by the pairs with equal label values
  alone: it is true exactly when every such pair is equal.
\<close>

theorem InstanceGroupListResourceUpToDate_disjoint:
  "(instancegroup_label ` set old \<inter> (\<lambda>n. instancegroup_label (IGSpec n)) ` set (Items new) = {}
      \<longrightarrow> InstanceGroupListResourceUpToDate old new)
   \<and> (InstanceGroupListResourceUpToDate old new \<longleftrightarrow>
        (\<forall>oldInstance\<in>set old. \<forall>newInstance\<in>set (Items new).
           instancegroup_label oldInstance = instancegroup_label (IGSpec newInstance)
             \<longrightarrow> oldInstance = IGSpec newInstance))"
proof -
  have "InstanceGroupListResourceUpToDate old new"
    if disj: "instancegroup_label ` set old
          \<inter> (\<lambda>n. instancegroup_label (IGSpec n)) ` set (Items new) = {}"
  proof -
    have "instancegroup_label oldInstance \<noteq> instancegroup_label (IGSpec newInstance)"
      if "oldInstance \<in> set old" and "newInstance \<in> set (Items new)"
      for oldInstance newInstance
      using that disj by blast
    then show ?thesis
      by (simp add: InstanceGroupListResourceUpToDate_def compare_all_result)
  qed
  then show ?thesis
    by (simp add: InstanceGroupListResourceUpToDate_def compare_all_result)
qed

theorem InstanceGroupListResourceUpToDate_disjoint_witness:
  "instancegroup_label `
       set [\<lparr>NodeLabels = Some [''kops.k8s.io/instancegroup'' \<mapsto> ''master''],
             OtherInstanceGroupFields = ''t3.medium''\<rparr>]
     \<inter> (\<lambda>n. instancegroup_label (IGSpec n)) `
       set (Items \<lparr>Items = [\<lparr>IGName = ''nodes'',
                     IGSpec = \<lparr>NodeLabels = Some [''kops.k8s.io/instancegroup'' \<mapsto> ''nodes''],
                               OtherInstanceGroupFields = ''t3.large''\<rparr>\<rparr>]\<rparr>) = {}
   \<and> InstanceGroupListResourceUpToDate
       [\<lparr>NodeLabels = Some [''kops.k8s.io/instancegroup'' \<mapsto> ''master''],
         OtherInstanceGroupFields = ''t3.medium''\<rparr>]
       \<lparr>Items = [\<lparr>IGName = ''nodes'',
                  IGSpec = \<lparr>NodeLabels = Some [''kops.k8s.io/instancegroup'' \<mapsto> ''nodes''],
                            OtherInstanceGroupFields = ''t3.large''\<rparr>\<rparr>]\<rparr>"
  using InstanceGroupListResourceUpToDate_disjoint
          [of "[\<lparr>NodeLabels = Some [''kops.k8s.io/instancegroup'' \<mapsto> ''master''],
                 OtherInstanceGroupFields = ''t3.medium''\<rparr>]"
              "\<lparr>Items = [\<lparr>IGName = ''nodes'',
                  IGSpec = \<lparr>NodeLabels = Some [''kops.k8s.io/instancegroup'' \<mapsto> ''nodes''],
                            OtherInstanceGroupFields = ''t3.large''\<rparr>\<rparr>]\<rparr>"]
  by (simp add: instancegroup_label_def)

text \<open>
  C5, as stated, fails when the label is absent on both sides. The two groups below
  carry no label, so the label values present on the desired list and on the observed
  list are both none, and disjoint; the code reads the empty string on both sides, takes
  the groups for a matched pair, finds them different, and answers false.
\<close>

theorem InstanceGroupListResourceUpToDate_unlabelled:
  "set (present_labels
          [\<lparr>NodeLabels = None, OtherInstanceGroupFields = ''t3.medium''\<rparr>])
     \<inter> set (present_labels (map IGSpec (Items
          \<lparr>Items = [\<lparr>IGName = '''',
                     IGSpec = \<lparr>NodeLabels = None,
                               OtherInstanceGroupFields = ''t3.large''\<rparr>\<rparr>]\<rparr>))) = {}
   \<and> \<not> InstanceGroupListResourceUpToDate
       [\<lparr>NodeLabels = None, OtherInstanceGroupFields = ''t3.medium''\<rparr>]
       \<lparr>Items = [\<lparr>IGName = '''',
                  IGSpec = \<lparr>NodeLabels = None,
                            OtherInstanceGroupFields = ''t3.large''\<rparr>\<rparr>]\<rparr>"
  by (simp add: present_labels_def InstanceGroupListResourceUpToDate_def
        instancegroup_label_def)

section \<open>Properties of the operations\<close>

lemmas run_defs = invoke_def andThen_def onError_def failWith_def outcome_def

lemmas util_defs = GetKubeconfigFromKopsState_def ValidateKopsCluster_def
  GenerateKubeConfig_def GetClusterStatus_def NewKubeconfigBuilder_def

lemmas fixture_defs = returns_def refuses_def backend_def backend_up_to_date_def
  backend_outdated_def backend_without_cluster_def backend_unreachable_def
  backend_rejecting_cluster_def backend_rejecting_nodes_def backend_failing_listing_def
  backend_failing_cluster_delete_def example_cr_def initial_state_def


lemma invoke_calls:
  "invoke c operation s = (r, s') \<Longrightarrow> calls s' = calls s @ [(c, outcome r)]"
  by (auto simp: invoke_def split: prod.splits)

subsection \<open>The certificate request\<close>

lemma cert_requests_simps [simp]:
  "cert_requests [] = []"
  "cert_requests (cs @ ds) = cert_requests cs @ cert_requests ds"
  "cert_requests ((c, r) # cs) =
     (case c of IssueCert_call req keyStore \<Rightarrow> [req] | _ \<Rightarrow> []) @ cert_requests cs"
  by (simp_all add: cert_requests_def)

text \<open>
  \<open>time.Hour - 1\<close> is odd, so it has an inverse in 64-bit arithmetic: no ttl but zero
  equals the validity computed from it.
\<close>

lemma ttl_hours_differ:
  fixes ttl :: Duration
  assumes "ttl \<noteq> 0"
  shows "ttl * Hour \<noteq> ttl"
proof
  assume "ttl * Hour = ttl"
  then have "ttl * (Hour - 1) = 0"
    by (simp add: algebra_simps)
  then have "ttl * (Hour - 1) * 9215170863027412991 = 0"
    by simp
  moreover have "(Hour - 1) * 9215170863027412991 = (1 :: Duration)"
    by (simp add: Hour_def)
  ultimately have "ttl = 0"
    by (simp add: mult.assoc)
  with assms show False by simp
qed

text \<open>
  C2, as the code has it. The ttl is read as a number of hours: the validity requested
  for the client certificate is the resolved ttl times \<open>time.Hour\<close>, in wrapping
  64-bit arithmetic, where the resolved ttl is 18 when the caller passed zero and the
  caller's value otherwise. A call issues at most one certificate request, and a call
  that returns a configuration has issued one.
\<close>

theorem GetKubeconfigFromKopsState_validity:
  assumes "GetKubeconfigFromKopsState env kopsCluster ttl s = (r, s')"
  shows "\<exists>issued. cert_requests (calls s') = cert_requests (calls s) @ issued
           \<and> (issued = [] \<or>
              issued = [\<lparr>Signer = CertificateIDCA, CertType = ''client'',
                         CommonName = ''kops-operator'',
                         Organization = [SystemPrivilegedGroup],
                         Validity = (if ttl = 0 then 18 else ttl) * Hour\<rparr>])
           \<and> (issued = [] \<longrightarrow> (\<exists>err. r = Inl err))"
  using assms
  unfolding GetKubeconfigFromKopsState_def run_defs Let_def
  by (auto split: prod.splits sum.splits option.splits)

lemma run_certificate:
  "GetKubeconfigFromKopsState backend_up_to_date
       \<lparr>Name = ''example.foo.com'', Spec = stored_spec\<rparr> ttl initial_state =
     (Inr \<lparr>Host = ''https://api.example.foo.com'', CAData = ''ca certificate'',
           CertData = ''client certificate'', KeyData = ''client key''\<rparr>,
      \<lparr>world = (),
       calls =
         [(KeyStore_call \<lparr>Name = ''example.foo.com'', Spec = stored_spec\<rparr>, None),
          (FindKeyset_call 1 CertificateIDCA, None),
          (ToCertificateBytes_call 1, None),
          (IssueCert_call
             \<lparr>Signer = CertificateIDCA, CertType = ''client'', CommonName = ''kops-operator'',
              Organization = [SystemPrivilegedGroup],
              Validity = (if ttl = 0 then 18 else ttl) * Hour\<rparr> 1, None),
          (Certificate_AsBytes_call 1, None),
          (PrivateKey_AsBytes_call 1, None),
          (BuildRestConfig_call
             \<lparr>Context = ''example.foo.com'', Server = ''https://api.example.foo.com'',
              CACerts = ''ca certificate'', ClientCert = ''client certificate'',
              ClientKey = ''client key''\<rparr>, None)]\<rparr>)"
  by (simp add: util_defs run_defs fixture_defs Let_def)

theorem GetKubeconfigFromKopsState_validity_witness:
  "map Validity (cert_requests (calls (snd (GetKubeconfigFromKopsState backend_up_to_date
       \<lparr>Name = ''example.foo.com'', Spec = stored_spec\<rparr> 0 initial_state))))
     = [64800000000000]
   \<and> map Validity (cert_requests (calls (snd (GetKubeconfigFromKopsState backend_up_to_date
       \<lparr>Name = ''example.foo.com'', Spec = stored_spec\<rparr> 24 initial_state))))
     = [86400000000000]"
proof -
  have "map Validity (cert_requests (calls (snd (GetKubeconfigFromKopsState backend_up_to_date
       \<lparr>Name = ''example.foo.com'', Spec = stored_spec\<rparr> ttl initial_state))))
     = [(if ttl = 0 then 18 else ttl) * Hour]" for ttl
  proof -
    from GetKubeconfigFromKopsState_validity [OF run_certificate [of ttl]]
    obtain issued where
      log: "cert_requests (calls (snd (GetKubeconfigFromKopsState backend_up_to_date
              \<lparr>Name = ''example.foo.com'', Spec = stored_spec\<rparr> ttl initial_state)))
            = cert_requests (calls initial_state) @ issued"
      and issued: "issued = [] \<or>
              issued = [\<lparr>Signer = CertificateIDCA, CertType = ''client'',
                         CommonName = ''kops-operator'',
                         Organization = [SystemPrivilegedGroup],
                         Validity = (if ttl = 0 then 18 else ttl) * Hour\<rparr>]"
      and "issued \<noteq> []"
      unfolding run_certificate by auto
    then show ?thesis
      by (auto simp: initial_state_def)
  qed
  from this [of 0] this [of 24] show ?thesis
    by (simp add: Hour_def)
qed

text \<open>
  C2, as stated, fails for a ttl that is not zero: a caller passing one hour (as a
  \<open>time.Duration\<close>) gets a certificate request whose validity is that number of
  nanoseconds taken as hours, wrapped to 64 bits, and not one hour.
\<close>

theorem GetKubeconfigFromKopsState_one_hour:
  "map Validity (cert_requests (calls (snd (GetKubeconfigFromKopsState backend_up_to_date
       \<lparr>Name = ''example.foo.com'', Spec = stored_spec\<rparr> Hour initial_state))))
     = [143342396288008192]
   \<and> map Validity (cert_requests (calls (snd (GetKubeconfigFromKopsState backend_up_to_date
       \<lparr>Name = ''example.foo.com'', Spec = stored_spec\<rparr> Hour initial_state))))
     \<noteq> [Hour]"
  by (simp add: run_certificate) (simp add: Hour_def)

subsection \<open>Observe\<close>

text \<open>
  C7. When the cluster fetch of \<open>Observe\<close> fails, the observation says the resource
  does not exist; the error is nil when the text of the fetch error contains
  \<open>not found\<close>, and otherwise the fetch error wrapped with the cluster-fetch tag.
\<close>

theorem Observe_cluster_fetch_failure:
  assumes "GetCluster env (ExternalName cr @ ''.'' @ Domain (ForProvider cr)) (world s) = (Inl err, w)"
  shows "fst (Observe env (KopsResource cr) s) =
           (\<lparr>ResourceExists = False, ResourceUpToDate = False, ConnectionDetails = None\<rparr>,
            if Contains (Error err) ''not found'' then None else Some (Wrap err errGetCluster))"
  using assms
  by (simp add: Observe_def Let_def invoke_def ErrNotFound_def ZeroObservation_def)

theorem Observe_cluster_fetch_failure_witness:
  "GetCluster backend_without_cluster (ExternalName example_cr @ ''.'' @ Domain (ForProvider example_cr))
      (world initial_state) = (Inl (New ''cluster not found''), ())
   \<and> fst (Observe backend_without_cluster (KopsResource example_cr) initial_state) =
       (\<lparr>ResourceExists = False, ResourceUpToDate = False, ConnectionDetails = None\<rparr>, None)
   \<and> GetCluster backend_unreachable (ExternalName example_cr @ ''.'' @ Domain (ForProvider example_cr))
      (world initial_state) = (Inl (New ''connection refused''), ())
   \<and> fst (Observe backend_unreachable (KopsResource example_cr) initial_state) =
       (\<lparr>ResourceExists = False, ResourceUpToDate = False, ConnectionDetails = None\<rparr>,
        Some (Wrap (New ''connection refused'') errGetCluster))"
proof -
  have absent: "GetCluster backend_without_cluster
      (ExternalName example_cr @ ''.'' @ Domain (ForProvider example_cr))
      (world initial_state) = (Inl (New ''cluster not found''), ())"
    by (simp add: fixture_defs)
  have broken: "GetCluster backend_unreachable
      (ExternalName example_cr @ ''.'' @ Domain (ForProvider example_cr))
      (world initial_state) = (Inl (New ''connection refused''), ())"
    by (simp add: fixture_defs)
  show ?thesis
    using absent broken Observe_cluster_fetch_failure [OF absent]
      Observe_cluster_fetch_failure [OF broken]
    by simp
qed








subsection \<open>Create\<close>

lemma created_groups_simps [simp]:
  "created_groups [] = []"
  "created_groups (cs @ ds) = created_groups cs @ created_groups ds"
  "created_groups ((c, r) # cs) =
     (case c of InstanceGroups_Create_call cluster ig \<Rightarrow> [ig] | _ \<Rightarrow> []) @ created_groups cs"
  by (simp_all add: created_groups_def)

lemma provisions_not_removal: "provisions c \<Longrightarrow> \<not> removes c"
  by (cases c) (simp_all add: provisions_def removes_def)

lemma created_not_removal: "\<not> removes (fst (created cluster ig))"
  by (simp add: created_def removes_def)

lemma provisions_not_cluster: "provisions c \<Longrightarrow> \<not> creates_cluster c"
  by (cases c) (simp_all add: provisions_def creates_cluster_def)

lemma created_not_cluster: "\<not> creates_cluster (fst (created cluster ig))"
  by (simp add: created_def creates_cluster_def)

lemma create_not_cluster: "\<not> creates_cluster (InstanceGroups_Create_call cluster ig)"
  by (simp add: creates_cluster_def)

lemma create_not_removal: "\<not> removes (InstanceGroups_Create_call cluster ig)"
  by (simp add: removes_def)

lemma create_instance_groups_calls:
  "create_instance_groups env cluster igs s = (r, s') \<Longrightarrow>
     (r = Inr () \<and> calls s' = calls s @ map (created cluster) igs)
     \<or> (\<exists>k cause. k < length igs
           \<and> r = Inl (Wrap cause errNewInstanceGroupState)
           \<and> calls s' = calls s @ map (created cluster) (take k igs)
                 @ [(InstanceGroups_Create_call cluster (CreateInstanceGroupSpec (igs ! k)),
                     Some cause)])"
proof (induction igs arbitrary: s)
  case Nil
  then show ?case by simp
next
  case (Cons ig igs)
  obtain r1 s1 where first:
    "invoke (InstanceGroups_Create_call cluster (CreateInstanceGroupSpec ig))
       (InstanceGroups_Create env cluster (CreateInstanceGroupSpec ig)) s = (r1, s1)"
    by (cases "invoke (InstanceGroups_Create_call cluster (CreateInstanceGroupSpec ig))
       (InstanceGroups_Create env cluster (CreateInstanceGroupSpec ig)) s") 
  have log1: "calls s1 = calls s
      @ [(InstanceGroups_Create_call cluster (CreateInstanceGroupSpec ig), outcome r1)]"
    using first by (rule invoke_calls)
  show ?case
  proof (cases r1)
    case (Inl cause)
    then have "r = Inl (Wrap cause errNewInstanceGroupState)" and "s' = s1"
      using Cons.prems first by simp_all
    then have "0 < length (ig # igs)
        \<and> r = Inl (Wrap cause errNewInstanceGroupState)
        \<and> calls s' = calls s @ map (created cluster) (take 0 (ig # igs))
              @ [(InstanceGroups_Create_call cluster (CreateInstanceGroupSpec ((ig # igs) ! 0)),
                  Some cause)]"
      using log1 Inl by (simp add: outcome_def)
    then show ?thesis by blast
  next
    case (Inr created_ig)
    then have rest: "create_instance_groups env cluster igs s1 = (r, s')"
      using Cons.prems first by simp
    have log1': "calls s1 = calls s @ [created cluster ig]"
      using log1 Inr by (simp add: outcome_def created_def)
    from Cons.IH [OF rest] show ?thesis
    proof
      assume "r = Inr () \<and> calls s' = calls s1 @ map (created cluster) igs"
      then show ?thesis using log1' by simp
    next
      assume "\<exists>k cause. k < length igs
           \<and> r = Inl (Wrap cause errNewInstanceGroupState)
           \<and> calls s' = calls s1 @ map (created cluster) (take k igs)
                 @ [(InstanceGroups_Create_call cluster (CreateInstanceGroupSpec (igs ! k)),
                     Some cause)]"
      then obtain k cause where k: "k < length igs"
        and r: "r = Inl (Wrap cause errNewInstanceGroupState)"
        and log: "calls s' = calls s1 @ map (created cluster) (take k igs)
                 @ [(InstanceGroups_Create_call cluster (CreateInstanceGroupSpec (igs ! k)),
                     Some cause)]"
        by blast
      have "Suc k < length (ig # igs)
        \<and> r = Inl (Wrap cause errNewInstanceGroupState)
        \<and> calls s' = calls s @ map (created cluster) (take (Suc k) (ig # igs))
              @ [(InstanceGroups_Create_call cluster
                    (CreateInstanceGroupSpec ((ig # igs) ! Suc k)), Some cause)]"
        using k r log log1' by simp
      then show ?thesis by blast
    qed
  qed
qed

text \<open>
  C9, as the code has it, for a Kops resource. The first call of \<open>Create\<close> is
  cluster-create, with the cluster built from the desired spec, and no other call of the
  run is a cluster-create. When it fails, nothing else is called and its error is
  returned tagged. When it succeeds, instance-group-create follows for the desired
  groups in list order, each once, against the returned cluster, up to and including
  the first one that fails; after a failure nothing else is called and the error is
  returned tagged; when none fails, only cloud and provisioning calls follow. No call
  after the first is a cluster-create, and no call of the run removes anything.
\<close>

theorem Create_calls:
  assumes "Create env (KopsResource cr) s = ((res, err), mg', s')"
  shows "\<exists>result after.
           calls s' = calls s @ (CreateCluster_call (CreateClusterSpec cr), result) # after
         \<and> (case result of
              Some cause \<Rightarrow> after = [] \<and> err = Some (Wrap cause errNewClusterState)
            | None \<Rightarrow>
               (\<exists>cluster.
                  (\<exists>k cause. k < length (InstanceGroupSpec (ForProvider cr))
                     \<and> after = map (created cluster) (take k (InstanceGroupSpec (ForProvider cr)))
                          @ [(InstanceGroups_Create_call cluster
                               (CreateInstanceGroupSpec (InstanceGroupSpec (ForProvider cr) ! k)),
                              Some cause)]
                     \<and> err = Some (Wrap cause errNewInstanceGroupState))
                \<or> (\<exists>rest. after = map (created cluster) (InstanceGroupSpec (ForProvider cr)) @ rest
                     \<and> (\<forall>c\<in>set rest. provisions (fst c)))))
         \<and> (\<forall>c\<in>set after. \<not> removes (fst c) \<and> \<not> creates_cluster (fst c))"
proof -
  obtain r0 s0 where first:
    "invoke (CreateCluster_call (CreateClusterSpec cr))
       (CreateCluster env (CreateClusterSpec cr)) s = (r0, s0)"
    by (cases "invoke (CreateCluster_call (CreateClusterSpec cr))
       (CreateCluster env (CreateClusterSpec cr)) s")
  have log0: "calls s0 = calls s @ [(CreateCluster_call (CreateClusterSpec cr), outcome r0)]"
    using first by (rule invoke_calls)
  show ?thesis
  proof (cases r0)
    case (Inl cause)
    then have "err = Some (Wrap cause errNewClusterState)" and "s' = s0"
      using assms first by (simp_all add: Create_def)
    then have "calls s' = calls s @ (CreateCluster_call (CreateClusterSpec cr), Some cause) # []
        \<and> [] = ([] :: ((('b, 'c) call \<times> error option) list)) \<and> err = Some (Wrap cause errNewClusterState)"
      using log0 Inl by (simp add: outcome_def)
    then show ?thesis by (intro exI [of _ "Some cause"] exI [of _ "[]"]) simp
  next
    case (Inr cluster)
    obtain r1 s1 where loop:
      "create_instance_groups env cluster (InstanceGroupSpec (ForProvider cr)) s0 = (r1, s1)"
      by (cases "create_instance_groups env cluster (InstanceGroupSpec (ForProvider cr)) s0")
    have log0': "calls s0 = calls s @ [(CreateCluster_call (CreateClusterSpec cr), None)]"
      using log0 Inr by (simp add: outcome_def)
    from create_instance_groups_calls [OF loop] show ?thesis
    proof
      assume ok: "r1 = Inr () \<and> calls s1 = calls s0
          @ map (created cluster) (InstanceGroupSpec (ForProvider cr))"
      have "\<exists>rest. calls s' = calls s1 @ rest \<and> (\<forall>c\<in>set rest. provisions (fst c))"
        using assms first Inr loop ok
        by (auto simp: Create_def Let_def invoke_def provisions_def
              split: prod.splits sum.splits)
      then obtain rest where "calls s' = calls s1 @ rest" and "\<forall>c\<in>set rest. provisions (fst c)"
        by blast
      then have "calls s' = calls s @ (CreateCluster_call (CreateClusterSpec cr), None)
            # (map (created cluster) (InstanceGroupSpec (ForProvider cr)) @ rest)
          \<and> (\<forall>c\<in>set rest. provisions (fst c))"
        using ok log0' by simp
      then show ?thesis
        by (intro exI [of _ None]
              exI [of _ "map (created cluster) (InstanceGroupSpec (ForProvider cr)) @ rest"])
           (auto simp: created_not_removal created_not_cluster
              dest: provisions_not_removal provisions_not_cluster)
    next
      assume "\<exists>k cause. k < length (InstanceGroupSpec (ForProvider cr))
           \<and> r1 = Inl (Wrap cause errNewInstanceGroupState)
           \<and> calls s1 = calls s0 @ map (created cluster) (take k (InstanceGroupSpec (ForProvider cr)))
                 @ [(InstanceGroups_Create_call cluster
                      (CreateInstanceGroupSpec (InstanceGroupSpec (ForProvider cr) ! k)),
                     Some cause)]"
      then obtain k cause where k: "k < length (InstanceGroupSpec (ForProvider cr))"
        and r1: "r1 = Inl (Wrap cause errNewInstanceGroupState)"
        and log: "calls s1 = calls s0 @ map (created cluster) (take k (InstanceGroupSpec (ForProvider cr)))
                 @ [(InstanceGroups_Create_call cluster
                      (CreateInstanceGroupSpec (InstanceGroupSpec (ForProvider cr) ! k)),
                     Some cause)]"
        by blast
      have "err = Some (Wrap cause errNewInstanceGroupState)" and "s' = s1"
        using assms first Inr loop r1 by (simp_all add: Create_def)
      then have "calls s' = calls s @ (CreateCluster_call (CreateClusterSpec cr), None)
            # (map (created cluster) (take k (InstanceGroupSpec (ForProvider cr)))
                 @ [(InstanceGroups_Create_call cluster
                      (CreateInstanceGroupSpec (InstanceGroupSpec (ForProvider cr) ! k)),
                     Some cause)])
          \<and> err = Some (Wrap cause errNewInstanceGroupState)"
        using log log0' by simp
      then show ?thesis
        using k
        by (intro exI [of _ None]
              exI [of _ "map (created cluster) (take k (InstanceGroupSpec (ForProvider cr)))
                 @ [(InstanceGroups_Create_call cluster
                      (CreateInstanceGroupSpec (InstanceGroupSpec (ForProvider cr) ! k)),
                     Some cause)]"])
           (auto simp: created_not_removal create_not_removal created_not_cluster
              create_not_cluster)
    qed
  qed
qed

lemma run_rejecting_cluster:
  "Create backend_rejecting_cluster (KopsResource example_cr) initial_state =
     ((ZeroCreation, Some (Wrap (New ''access denied'') errNewClusterState)),
      KopsResource example_cr,
      \<lparr>world = (),
       calls = [(CreateCluster_call (CreateClusterSpec example_cr),
                 Some (New ''access denied''))]\<rparr>)"
  by (simp add: Create_def run_defs fixture_defs)

lemma run_rejecting_nodes:
  "Create backend_rejecting_nodes (KopsResource example_cr) initial_state =
     ((ZeroCreation, Some (Wrap (New ''quota exceeded'') errNewInstanceGroupState)),
      KopsResource example_cr,
      \<lparr>world = (),
       calls = [(CreateCluster_call (CreateClusterSpec example_cr), None),
                created (CreateClusterSpec example_cr) master_group,
                (InstanceGroups_Create_call (CreateClusterSpec example_cr)
                   (CreateInstanceGroupSpec nodes_group),
                 Some (New ''quota exceeded''))]\<rparr>)"
  by (simp add: Create_def run_defs fixture_defs created_def CreateInstanceGroupSpec_def
        instancegroup_label_def master_group_def nodes_group_def)

theorem Create_calls_witness:
  "Create backend_rejecting_nodes (KopsResource example_cr) initial_state =
     ((ZeroCreation, Some (Wrap (New ''quota exceeded'') errNewInstanceGroupState)),
      KopsResource example_cr,
      \<lparr>world = (),
       calls = [(CreateCluster_call (CreateClusterSpec example_cr), None),
                created (CreateClusterSpec example_cr) master_group,
                (InstanceGroups_Create_call (CreateClusterSpec example_cr)
                   (CreateInstanceGroupSpec nodes_group),
                 Some (New ''quota exceeded''))]\<rparr>)
   \<and> (\<exists>result after.
         [(CreateCluster_call (CreateClusterSpec example_cr), None),
          created (CreateClusterSpec example_cr) master_group,
          (InstanceGroups_Create_call (CreateClusterSpec example_cr)
             (CreateInstanceGroupSpec nodes_group),
           Some (New ''quota exceeded''))]
          = (CreateCluster_call (CreateClusterSpec example_cr), result) # after
       \<and> (\<forall>c\<in>set after. \<not> removes (fst c) \<and> \<not> creates_cluster (fst c)))"
proof -
  from Create_calls [OF run_rejecting_nodes]
  have "\<exists>result after.
         calls \<lparr>world = (),
            calls = [(CreateCluster_call (CreateClusterSpec example_cr), None),
                created (CreateClusterSpec example_cr) master_group,
                (InstanceGroups_Create_call (CreateClusterSpec example_cr)
                   (CreateInstanceGroupSpec nodes_group),
                 Some (New ''quota exceeded''))]\<rparr>
          = calls initial_state @ (CreateCluster_call (CreateClusterSpec example_cr), result) # after
       \<and> (\<forall>c\<in>set after. \<not> removes (fst c) \<and> \<not> creates_cluster (fst c))"
    by blast
  then show ?thesis
    using run_rejecting_nodes by (simp add: initial_state_def)
qed

text \<open>
  C9, as stated, fails when cluster-create itself fails: two groups are listed, no
  instance-group creation has failed, and no instance-group-create is issued.
\<close>

theorem Create_cluster_rejected_no_groups:
  "calls (snd (snd (Create backend_rejecting_cluster (KopsResource example_cr) initial_state)))
     = [(CreateCluster_call (CreateClusterSpec example_cr), Some (New ''access denied''))]
   \<and> created_groups
       (calls (snd (snd (Create backend_rejecting_cluster (KopsResource example_cr) initial_state))))
     = []
   \<and> InstanceGroupSpec (ForProvider example_cr) = [master_group, nodes_group]"
  by (simp add: run_rejecting_cluster) (simp add: example_cr_def)

subsection \<open>The conditions set by Create and Delete\<close>

lemma Creating_is_set: "Creating \<in> set (SetConditions Creating cs)"
  by (induction cs) (auto simp: SetConditions_def list_ex_iff)

lemma Deleting_is_set: "Deleting \<in> set (SetConditions Deleting cs)"
  by (induction cs) (auto simp: SetConditions_def list_ex_iff)

text \<open>
  C10, as the code has it, for a Kops resource. \<open>Create\<close> sets the Creating condition,
  and \<open>Delete\<close> the Deleting condition, as its last step: the condition is set exactly
  when the operation returns no error, and an operation that returns an error leaves the
  resource as it was.
\<close>

theorem Conditions_after_Create_Delete:
  "fst (snd (Create env (KopsResource cr) s)) =
     KopsResource (if snd (fst (Create env (KopsResource cr) s)) = None
                   then cr\<lparr>Conditions := SetConditions Creating (Conditions cr)\<rparr> else cr)
   \<and> fst (snd (Delete env (KopsResource cr) s)) =
     KopsResource (if fst (Delete env (KopsResource cr) s) = None
                   then cr\<lparr>Conditions := SetConditions Deleting (Conditions cr)\<rparr> else cr)"
  by (auto simp: Create_def Delete_def Let_def split: prod.splits sum.splits)

lemma run_create:
  "fst (Create backend_up_to_date (KopsResource example_cr) initial_state)
     = (\<lparr>CreationConnectionDetails = Some Map.empty\<rparr>, None)"
  by (simp add: Create_def run_defs fixture_defs)

lemma run_failing_cluster_delete:
  "fst (Delete backend_failing_cluster_delete (KopsResource example_cr) initial_state)
     = Some (Wrap (New ''access denied'') errDeleteCluster)"
  by (simp add: Delete_def run_defs fixture_defs Let_def)

theorem Conditions_after_Create_Delete_witness:
  "conditions_of (fst (snd (Create backend_up_to_date (KopsResource example_cr) initial_state)))
     = [Creating]
   \<and> fst (snd (Delete backend_failing_cluster_delete (KopsResource example_cr) initial_state))
     = KopsResource example_cr"
  using Conditions_after_Create_Delete [of backend_up_to_date example_cr initial_state]
    Conditions_after_Create_Delete [of backend_failing_cluster_delete example_cr initial_state]
  by (simp add: run_create run_failing_cluster_delete conditions_of_def SetConditions_def)
     (simp add: example_cr_def)

text \<open>
  C10, as stated, fails: a \<open>Create\<close> whose cluster-create is refused, and a
  \<open>Delete\<close> whose cluster-delete is refused, return an error and set no condition.
\<close>

theorem Create_Delete_failed_no_condition:
  "snd (fst (Create backend_rejecting_cluster (KopsResource example_cr) initial_state))
     = Some (Wrap (New ''access denied'') errNewClusterState)
   \<and> conditions_of
       (fst (snd (Create backend_rejecting_cluster (KopsResource example_cr) initial_state))) = []
   \<and> fst (Delete backend_failing_cluster_delete (KopsResource example_cr) initial_state)
     = Some (Wrap (New ''access denied'') errDeleteCluster)
   \<and> conditions_of
       (fst (snd (Delete backend_failing_cluster_delete (KopsResource example_cr) initial_state)))
     = []"
  by (simp add: Create_def Delete_def run_defs fixture_defs conditions_of_def Let_def)

subsection \<open>Error tags\<close>

text \<open>
  C3. The claim holds for \<open>Observe\<close>, \<open>Create\<close> and \<open>Update\<close> (the lemmas below),
  and for four of the five calls of \<open>Delete\<close>. The listing of the cloud resources
  breaks it: when it fails, \<open>Delete\<close> returns the error of \<open>ListResources\<close> as it
  is, with no tag.
\<close>

theorem Delete_ListResources_error_untagged:
  "fst (Delete backend_failing_listing (KopsResource example_cr) initial_state)
     = Some (New ''throttled'')
   \<and> \<not> tagged (New ''throttled'')
   \<and> calls (snd (snd (Delete backend_failing_listing (KopsResource example_cr) initial_state)))
     = [(GetCluster_call ''example.foo.com'', None),
        (BuildCloud_call \<lparr>Name = ''example.foo.com'', Spec = stored_spec\<rparr>, None),
        (ListResources_call 1 \<lparr>Name = ''example.foo.com'', Spec = stored_spec\<rparr> ''us-east-1'',
         Some (New ''throttled''))]"
  by (simp add: Delete_def run_defs fixture_defs Let_def)

lemma create_instance_groups_tagged:
  "create_instance_groups env cluster igs s = (Inl err, s') \<Longrightarrow> tagged err"
  by (induction igs arbitrary: s) (auto split: prod.splits sum.splits)

lemma update_instance_groups_tagged:
  "update_instance_groups env cluster igs s = (Inl err, s') \<Longrightarrow> tagged err"
  by (induction igs arbitrary: s) (auto split: prod.splits sum.splits)

lemma Observe_errors_tagged:
  "snd (fst (Observe env (KopsResource cr) s)) = Some err \<Longrightarrow> tagged err"
  by (auto simp: Observe_def Let_def split: prod.splits sum.splits if_splits)

lemma Create_errors_tagged:
  "snd (fst (Create env (KopsResource cr) s)) = Some err \<Longrightarrow> tagged err"
  by (auto simp: Create_def Let_def dest: create_instance_groups_tagged
      split: prod.splits sum.splits if_splits)

lemma Update_errors_tagged:
  "snd (fst (Update env (KopsResource cr) s)) = Some err \<Longrightarrow> tagged err"
  by (auto simp: Update_def Let_def dest: update_instance_groups_tagged
      split: prod.splits sum.splits if_splits)

lemma Delete_errors_tagged_but_listing:
  assumes "fst (Delete env (KopsResource cr) s) = Some err"
  shows "tagged err
       \<or> (\<exists>cluster s1 cloud s2 s3.
             invoke (GetCluster_call (ExternalName cr @ ''.'' @ Domain (ForProvider cr)))
               (GetCluster env (ExternalName cr @ ''.'' @ Domain (ForProvider cr))) s
               = (Inr cluster, s1)
           \<and> invoke (BuildCloud_call cluster) (BuildCloud env cluster) s1 = (Inr cloud, s2)
           \<and> invoke (ListResources_call cloud cluster (Region (ForProvider cr)))
               (ListResources env cloud cluster (Region (ForProvider cr))) s2 = (Inl err, s3))"
  using assms
  by (auto simp: Delete_def Let_def split: prod.splits sum.splits if_splits)

end
